theory Spec2Isabelle
  imports Main "HOL-Library.List_Lexorder" "HOL-Library.Char_ord"
begin

section \<open>Reveal and copy state of the key tables\<close>

text \<open>
  The three components that list stored keys (\<^verbatim>\<open>ApiKeysTable\<close>, \<^verbatim>\<open>MainDashboard\<close> and
  \<^verbatim>\<open>WebsitePage\<close>) carry the same four pieces of React state and the same two handlers
  \<^verbatim>\<open>toggleVisibility\<close> and \<^verbatim>\<open>copyToClipboard\<close>. A handler is modelled as one atomic
  step: it reads the state of the render it was created in and returns the state after
  all of its \<^verbatim>\<open>setState\<close> calls. The calls are taken one after the other: a handler has
  settled, and the component has rendered again, before the next one starts; a click
  made while a \<^verbatim>\<open>decrypt\<close> is still pending is outside the model. A string is the list
  of the bytes of its UTF-8 encoding.

  \<^verbatim>\<open>decrypt\<close> lives in \<^verbatim>\<open>lib/encryption\<close>; the handlers take it as the parameter
  \<open>dec\<close>, where \<open>Inl e\<close> is a rejected promise carrying \<open>e\<close>.
\<close>

datatype field = Key | Password

text \<open>The cache entry \<^verbatim>\<open>{ key: string; password: string }\<close> of \<^verbatim>\<open>decryptedData\<close>.\<close>

record decrypted =
  key :: string
  password :: string

record table_state =
  visibleKeys :: "string set"
  visiblePasswords :: "string set"
  decryptedData :: "string \<rightharpoonup> decrypted"
  copiedId :: "string option"

text \<open>\<^verbatim>\<open>setTimeout(() => setCopiedId(null), 2000)\<close>: a callback and its delay.\<close>

datatype timer_callback = SetCopiedId "string option"

text \<open>
  What the handlers touch outside the component: the system clipboard, the pending
  timers (delay in milliseconds, callback), and the list of ciphertexts that were passed
  to \<^verbatim>\<open>decrypt\<close>, in call order.
\<close>

record browser =
  clipboard :: string
  timers :: "(nat \<times> timer_callback) list"
  decrypt_calls :: "string list"

definition initial_table :: table_state where
  "initial_table =
     \<lparr>visibleKeys = {}, visiblePasswords = {}, decryptedData = Map.empty, copiedId = None\<rparr>"

definition call_decrypt :: "string \<Rightarrow> browser \<Rightarrow> browser" where
  "call_decrypt c br = br\<lparr>decrypt_calls := decrypt_calls br @ [c]\<rparr>"

definition visibleSet :: "field \<Rightarrow> table_state \<Rightarrow> string set" where
  "visibleSet fld st = (if fld = Key then visibleKeys st else visiblePasswords st)"

definition setVisibleSet :: "field \<Rightarrow> string set \<Rightarrow> table_state \<Rightarrow> table_state" where
  "setVisibleSet fld S st =
     (if fld = Key then st\<lparr>visibleKeys := S\<rparr> else st\<lparr>visiblePasswords := S\<rparr>)"

text \<open>\<^verbatim>\<open>{ ...currentData, [field === 'key' ? 'key' : 'password']: decrypted }\<close>\<close>

definition set_field :: "field \<Rightarrow> string \<Rightarrow> decrypted \<Rightarrow> decrypted" where
  "set_field fld v d = (if fld = Key then d\<lparr>key := v\<rparr> else d\<lparr>password := v\<rparr>)"

text \<open>
  \<^verbatim>\<open>toggleVisibility(id, field, encrypted)\<close>. The result is the rejection, if any, with
  the component state and the browser after the call. The cache is looked up by the
  record id alone (\<^verbatim>\<open>decryptedData.has(id)\<close>).
\<close>

definition toggleVisibility ::
  "(string \<Rightarrow> 'e + string) \<Rightarrow> string \<Rightarrow> field \<Rightarrow> string \<Rightarrow> table_state \<Rightarrow> browser
     \<Rightarrow> 'e option \<times> table_state \<times> browser" where
  "toggleVisibility dec i fld encrypted st br =
     (if i \<in> visibleSet fld st then
        (None, setVisibleSet fld (visibleSet fld st - {i}) st, br)
      else if decryptedData st i = None then
        (case dec encrypted of
           Inl e \<Rightarrow> (Some e, st, call_decrypt encrypted br)
         | Inr plain \<Rightarrow>
             let currentData =
                   (case decryptedData st i of
                      Some d \<Rightarrow> d
                    | None \<Rightarrow> \<lparr>key = [], password = []\<rparr>);
                 st1 = st\<lparr>decryptedData :=
                            (decryptedData st)(i \<mapsto> set_field fld plain currentData)\<rparr>
             in (None, setVisibleSet fld (insert i (visibleSet fld st)) st1,
                 call_decrypt encrypted br))
      else
        (None, setVisibleSet fld (insert i (visibleSet fld st)) st, br))"

text \<open>
  \<^verbatim>\<open>copyToClipboard(text, id)\<close>. \<open>writeText\<close> is \<^verbatim>\<open>navigator.clipboard.writeText\<close>:
  \<open>Some e\<close> is a rejected write, which leaves the clipboard as it was.
\<close>

definition copyToClipboard ::
  "(string \<Rightarrow> 'e + string) \<Rightarrow> (string \<Rightarrow> 'e option) \<Rightarrow> string \<Rightarrow> string
     \<Rightarrow> table_state \<Rightarrow> browser \<Rightarrow> 'e option \<times> table_state \<times> browser" where
  "copyToClipboard dec writeText txt cid st br =
     (case dec txt of
        Inl e \<Rightarrow> (Some e, st, call_decrypt txt br)
      | Inr plain \<Rightarrow>
          (case writeText plain of
             Some e \<Rightarrow> (Some e, st, call_decrypt txt br)
           | None \<Rightarrow>
               (None, st\<lparr>copiedId := Some cid\<rparr>,
                (call_decrypt txt br)
                  \<lparr>clipboard := plain,
                   timers := timers (call_decrypt txt br) @ [(2000, SetCopiedId None)]\<rparr>)))"

text \<open>A timer that fires runs its callback on the state of that moment.\<close>

fun fire :: "timer_callback \<Rightarrow> table_state \<Rightarrow> table_state" where
  "fire (SetCopiedId v) st = st\<lparr>copiedId := v\<rparr>"

text \<open>
  What a cell shows. \<^verbatim>\<open>decryptedData.get(key.id)?.key || fallback\<close> falls back when the
  entry is missing and when the cached string is empty. The masks differ between the
  components, so they are parameters; the mask of a password is eight bullets (U+2022).
\<close>

definition bullets :: string where
  "bullets = concat (replicate 8 [CHR 0xE2, CHR 0x80, CHR 0xA2])"

definition key_cell :: "string \<Rightarrow> string \<Rightarrow> table_state \<Rightarrow> string \<Rightarrow> string" where
  "key_cell fallback masked st i =
     (if i \<in> visibleKeys st then
        (case decryptedData st i of
           None \<Rightarrow> fallback
         | Some d \<Rightarrow> if key d = [] then fallback else key d)
      else masked)"

text \<open>
  The password cell of a record with the ciphertext \<open>encrypted_password\<close>: a record that
  has none shows a dash, and no buttons.
\<close>

definition password_cell :: "table_state \<Rightarrow> string \<Rightarrow> string \<Rightarrow> string" where
  "password_cell st i encrypted_password =
     (if encrypted_password = [] then ''-''
      else if i \<in> visiblePasswords st then
        (case decryptedData st i of
           None \<Rightarrow> bullets
         | Some d \<Rightarrow> if password d = [] then bullets else password d)
      else bullets)"

text \<open>The key cell of \<^verbatim>\<open>MainDashboard\<close> and \<^verbatim>\<open>WebsitePage\<close>, and of \<^verbatim>\<open>ApiKeysTable\<close>.\<close>

definition MainDashboard_key_cell :: "table_state \<Rightarrow> string \<Rightarrow> string" where
  "MainDashboard_key_cell = key_cell ''sk-***'' ''sk-*********************''"

definition ApiKeysTable_key_cell :: "table_state \<Rightarrow> string \<Rightarrow> string" where
  "ApiKeysTable_key_cell = key_cell ''tvly-dev-***'' ''tvly-dev-*********************''"

section \<open>The mass-add form\<close>

text \<open>
  \<^verbatim>\<open>MassAddModal.handleSubmit\<close>. A thrown value is an \<^verbatim>\<open>Error\<close> with its message or
  something else; the \<^verbatim>\<open>catch\<close> block tells the two apart with \<^verbatim>\<open>instanceof\<close>.
\<close>

datatype thrown = Error string | NotAnError

record ApiKeyRow =
  id' :: string
  email_username :: string
  password :: string
  api_key :: string
  notes' :: string

text \<open>One element of \<^verbatim>\<open>encryptedData\<close>, the argument of \<^verbatim>\<open>insert\<close>.\<close>

record insert_row =
  user_id :: string
  service_name :: string
  email_username :: string
  encrypted_password :: string
  encrypted_api_key :: string
  notes' :: string
  tags :: "string list"

record modal_state =
  rows :: "ApiKeyRow list"
  loading :: bool
  error :: string

text \<open>
  What a submission does outside the component: the payload of the \<^verbatim>\<open>insert\<close> call, if
  one was made, and whether \<^verbatim>\<open>onSuccess(); onClose()\<close> ran.
\<close>

record submit_effects =
  inserted :: "insert_row list option"
  closed :: bool

definition no_effects :: submit_effects where
  "no_effects = \<lparr>inserted = None, closed = False\<rparr>"

text \<open>
  \<^verbatim>\<open>String.prototype.trim\<close> removes the white space and the line terminators of
  ECMAScript from both ends. In UTF-8 these are: tab, line feed, vertical tab, form
  feed, carriage return, space, U+00A0, U+1680, U+2000 to U+200A, U+2028, U+2029,
  U+202F, U+205F, U+3000 and U+FEFF. No encoding in the list is the start or the
  end of another, and in well-formed UTF-8 none of them occurs inside another
  character.
\<close>

definition white_space :: "string list" where
  "white_space =
     [[CHR 0x09], [CHR 0x0A], [CHR 0x0B], [CHR 0x0C], [CHR 0x0D], [CHR 0x20],
      [CHR 0xC2, CHR 0xA0],
      [CHR 0xE1, CHR 0x9A, CHR 0x80],
      [CHR 0xE2, CHR 0x80, CHR 0x80], [CHR 0xE2, CHR 0x80, CHR 0x81],
      [CHR 0xE2, CHR 0x80, CHR 0x82], [CHR 0xE2, CHR 0x80, CHR 0x83],
      [CHR 0xE2, CHR 0x80, CHR 0x84], [CHR 0xE2, CHR 0x80, CHR 0x85],
      [CHR 0xE2, CHR 0x80, CHR 0x86], [CHR 0xE2, CHR 0x80, CHR 0x87],
      [CHR 0xE2, CHR 0x80, CHR 0x88], [CHR 0xE2, CHR 0x80, CHR 0x89],
      [CHR 0xE2, CHR 0x80, CHR 0x8A],
      [CHR 0xE2, CHR 0x80, CHR 0xA8], [CHR 0xE2, CHR 0x80, CHR 0xA9],
      [CHR 0xE2, CHR 0x80, CHR 0xAF],
      [CHR 0xE2, CHR 0x81, CHR 0x9F],
      [CHR 0xE3, CHR 0x80, CHR 0x80],
      [CHR 0xEF, CHR 0xBB, CHR 0xBF]]"

text \<open>The rest of \<open>s\<close> after the first of the sequences \<open>ws\<close> that it starts with.\<close>

fun strip :: "string list \<Rightarrow> string \<Rightarrow> string option" where
  "strip [] s = None"
| "strip (w # ws) s =
     (if w \<noteq> [] \<and> take (length w) s = w then Some (drop (length w) s) else strip ws s)"

function trimStart :: "string list \<Rightarrow> string \<Rightarrow> string" where
  "trimStart ws s = (case strip ws s of None \<Rightarrow> s | Some rest \<Rightarrow> trimStart ws rest)"
  by pat_completeness auto
termination
proof (relation "measure (\<lambda>(ws, s). length s)")
  show "wf (measure (\<lambda>(ws, s). length s))" by simp
next
  fix ws :: "string list" and s rest :: string
  assume "strip ws s = Some rest"
  then have "length rest < length s"
  proof (induction ws)
    case Nil
    then show ?case by simp
  next
    case (Cons w ws)
    show ?case
    proof (cases "w \<noteq> [] \<and> take (length w) s = w")
      case True
      with Cons.prems have rest: "rest = drop (length w) s" by simp
      from True have "length (take (length w) s) = length w" by simp
      then have "length w \<le> length s" by simp
      with True rest show ?thesis by (cases w) auto
    next
      case False
      with Cons show ?thesis by auto
    qed
  qed
  then show "((ws, rest), (ws, s)) \<in> measure (\<lambda>(ws, s). length s)" by simp
qed

declare trimStart.simps [simp del]

definition trim :: "string \<Rightarrow> string" where
  "trim s = rev (trimStart (map rev white_space) (rev (trimStart white_space s)))"

text \<open>
  \<^verbatim>\<open>encrypt\<close> lives in \<^verbatim>\<open>lib/encryption\<close> and need not give the same ciphertext twice, so
  the parameter \<open>enc\<close> is told which call it serves: the position of the row among the
  valid rows, and the field. \<open>Inl e\<close> is a rejected promise.

  The object literal of a row is evaluated in source order: the password is encrypted
  (when it is not empty) before the key.
\<close>

definition encrypt_row ::
  "(nat \<Rightarrow> field \<Rightarrow> string \<Rightarrow> thrown + string) \<Rightarrow> string \<Rightarrow> string \<Rightarrow> nat \<Rightarrow> ApiKeyRow
     \<Rightarrow> thrown + insert_row" where
  "encrypt_row enc uid serviceName j row =
     (case (if ApiKeyRow.password row \<noteq> [] then enc j Password (ApiKeyRow.password row)
            else Inr []) of
        Inl e \<Rightarrow> Inl e
      | Inr ep \<Rightarrow>
          (case enc j Key (api_key row) of
             Inl e \<Rightarrow> Inl e
           | Inr ek \<Rightarrow>
               Inr \<lparr>user_id = uid, service_name = serviceName,
                    email_username = ApiKeyRow.email_username row,
                    encrypted_password = ep, encrypted_api_key = ek,
                    notes' = ApiKeyRow.notes' row, tags = []\<rparr>))"

text \<open>
  \<^verbatim>\<open>Promise.all\<close> of settled promises: the values in the order of the promises when all
  are fulfilled, else the reason of the rejection that settled first. Which one that
  is depends on how long each call takes, which the program does not decide: the
  choice among the rejections is the parameter \<open>race\<close>.
\<close>

definition rejections :: "('e + 'a) list \<Rightarrow> 'e list" where
  "rejections ps = List.map_filter (\<lambda>p. case p of Inl e \<Rightarrow> Some e | Inr v \<Rightarrow> None) ps"

definition fulfilled :: "('e + 'a) list \<Rightarrow> 'a list" where
  "fulfilled ps = List.map_filter (\<lambda>p. case p of Inl e \<Rightarrow> None | Inr v \<Rightarrow> Some v) ps"

definition Promise_all :: "nat \<Rightarrow> ('e + 'a) list \<Rightarrow> 'e + 'a list" where
  "Promise_all race ps =
     (if rejections ps = [] then Inr (fulfilled ps)
      else Inl (rejections ps ! (race mod length (rejections ps))))"

text \<open>\<^verbatim>\<open>Promise.all(validRows.map(async (row) => ...))\<close>, each row with its position.\<close>

definition encrypt_rows ::
  "(nat \<Rightarrow> field \<Rightarrow> string \<Rightarrow> thrown + string) \<Rightarrow> nat \<Rightarrow> string \<Rightarrow> string \<Rightarrow> ApiKeyRow list
     \<Rightarrow> thrown + insert_row list" where
  "encrypt_rows enc race uid serviceName rs =
     Promise_all race (map (\<lambda>(j, row). encrypt_row enc uid serviceName j row) (enumerate 0 rs))"

definition validRows :: "ApiKeyRow list \<Rightarrow> ApiKeyRow list" where
  "validRows rs = filter (\<lambda>row. trim (api_key row) \<noteq> []) rs"

text \<open>
  The \<^verbatim>\<open>try\<close> block: what was thrown, if anything, with the state and the effects at
  that point. \<open>getUser\<close> is the outcome of \<^verbatim>\<open>supabase.auth.getUser()\<close> (the id of the user,
  if one is logged in), \<open>insertRows\<close> the \<^verbatim>\<open>error\<close> field of the answer to the insert.
\<close>

definition submit_try ::
  "(thrown + string option) \<Rightarrow> (nat \<Rightarrow> field \<Rightarrow> string \<Rightarrow> thrown + string) \<Rightarrow> nat
     \<Rightarrow> (insert_row list \<Rightarrow> thrown option) \<Rightarrow> string \<Rightarrow> modal_state
     \<Rightarrow> thrown option \<times> modal_state \<times> submit_effects" where
  "submit_try getUser enc race insertRows serviceName st =
     (case getUser of
        Inl e \<Rightarrow> (Some e, st, no_effects)
      | Inr None \<Rightarrow> (Some (Error ''You must be logged in to add API keys''), st, no_effects)
      | Inr (Some uid) \<Rightarrow>
          if length (validRows (rows st)) = 0 then
            (None, st\<lparr>error := ''At least one row must have an API key'', loading := False\<rparr>,
             no_effects)
          else
            (case encrypt_rows enc race uid serviceName (validRows (rows st)) of
               Inl e \<Rightarrow> (Some e, st, no_effects)
             | Inr encryptedData \<Rightarrow>
                 (case insertRows encryptedData of
                    Some insertError \<Rightarrow>
                      (Some insertError, st, \<lparr>inserted = Some encryptedData, closed = False\<rparr>)
                  | None \<Rightarrow>
                      (None, st, \<lparr>inserted = Some encryptedData, closed = True\<rparr>))))"

text \<open>\<^verbatim>\<open>err instanceof Error ? err.message : 'An error occurred'\<close>\<close>

fun message :: "thrown \<Rightarrow> string" where
  "message (Error m) = m"
| "message NotAnError = ''An error occurred''"

definition handleSubmit ::
  "(thrown + string option) \<Rightarrow> (nat \<Rightarrow> field \<Rightarrow> string \<Rightarrow> thrown + string) \<Rightarrow> nat
     \<Rightarrow> (insert_row list \<Rightarrow> thrown option) \<Rightarrow> string \<Rightarrow> modal_state
     \<Rightarrow> modal_state \<times> submit_effects" where
  "handleSubmit getUser enc race insertRows serviceName st =
     (case submit_try getUser enc race insertRows serviceName
             (st\<lparr>error := [], loading := True\<rparr>) of
        (None, st', fx) \<Rightarrow> (st'\<lparr>loading := False\<rparr>, fx)
      | (Some err, st', fx) \<Rightarrow> (st'\<lparr>error := message err, loading := False\<rparr>, fx))"

section \<open>Deleting a key\<close>

text \<open>A stored row, \<^verbatim>\<open>ApiKey\<close>: the inserted columns and those the server assigns.\<close>

record ApiKey = insert_row +
  id' :: string
  created_at :: string
  updated_at :: string

datatype db_call = Select | Delete string

text \<open>
  The persistence layer as one owner sees it (the rows of \<^verbatim>\<open>api_keys\<close> that row-level
  security lets through), the calls made to it, and the labels written with
  \<^verbatim>\<open>console.error\<close>.
\<close>

record world =
  table :: "ApiKey list"
  db_calls :: "db_call list"
  console :: "string list"

text \<open>
  Modelled from the spec: the persistence layer is a hosted service, none of its code is
  in the repository. Its contract is \<^verbatim>\<open>delete(table, id) -> success | error\<close> and
  \<^verbatim>\<open>select(table, filter, order) -> rows\<close>. Whether a call fails is decided outside the
  program, so the outcome \<open>err\<close> is a parameter; a failed delete removes nothing. The
  \<^verbatim>\<open>order\<close> clauses of a query are a sort key \<open>ord\<close> into some linear order.
\<close>

text \<open>Modelled from the spec: \<^verbatim>\<open>delete(table, id) -> success | error\<close> of the persistence layer.\<close>

definition db_delete :: "thrown option \<Rightarrow> string \<Rightarrow> world \<Rightarrow> world" where
  "db_delete err i w =
     (case err of
        Some e \<Rightarrow> w\<lparr>db_calls := db_calls w @ [Delete i]\<rparr>
      | None \<Rightarrow> w\<lparr>table := filter (\<lambda>r. ApiKey.id' r \<noteq> i) (table w),
                  db_calls := db_calls w @ [Delete i]\<rparr>)"

text \<open>Modelled from the spec: \<^verbatim>\<open>select(table, filter, order) -> rows\<close> of the persistence layer.\<close>

definition db_select ::
  "thrown option \<Rightarrow> (ApiKey \<Rightarrow> bool) \<Rightarrow> (ApiKey \<Rightarrow> 'o::linorder) \<Rightarrow> world
     \<Rightarrow> (thrown + ApiKey list) \<times> world" where
  "db_select err flt ord w =
     (case err of
        Some e \<Rightarrow> (Inl e, w\<lparr>db_calls := db_calls w @ [Select]\<rparr>)
      | None \<Rightarrow> (Inr (sort_key ord (filter flt (table w))), w\<lparr>db_calls := db_calls w @ [Select]\<rparr>))"

record dashboard_state =
  apiKeys :: "ApiKey list"
  loading :: bool

text \<open>\<^verbatim>\<open>Dashboard\<close> also keeps the sorted list of all tags.\<close>

record Dashboard_state = dashboard_state +
  allTags :: "string list"

text \<open>\<^verbatim>\<open>MainDashboard.fetchApiKeys\<close>: every row, in the order of the query.\<close>

definition MainDashboard_fetchApiKeys ::
  "thrown option \<Rightarrow> (ApiKey \<Rightarrow> 'o::linorder) \<Rightarrow> dashboard_state \<Rightarrow> world
     \<Rightarrow> dashboard_state \<times> world" where
  "MainDashboard_fetchApiKeys err ord st w =
     (case db_select err (\<lambda>r. True) ord w of
        (Inl e, w') \<Rightarrow>
          (st\<lparr>dashboard_state.loading := True\<rparr>\<lparr>dashboard_state.loading := False\<rparr>,
           w'\<lparr>console := console w' @ [''Error fetching API keys:'']\<rparr>)
      | (Inr data, w') \<Rightarrow>
          (st\<lparr>dashboard_state.loading := True\<rparr>
             \<lparr>apiKeys := data, dashboard_state.loading := False\<rparr>, w'))"

text \<open>
  \<^verbatim>\<open>Array.prototype.sort\<close> without a comparator orders strings by their UTF-16 code
  units. On well-formed UTF-8 that is the order of the bytes, except that the
  characters from U+E000 to U+FFFF (lead bytes \<open>EE\<close> and \<open>EF\<close>) come after those beyond
  U+FFFF (lead bytes \<open>F0\<close> to \<open>F4\<close>), which UTF-16 writes with surrogates.
\<close>

definition utf16_rank :: "char \<Rightarrow> nat" where
  "utf16_rank c = (if c = CHR 0xEE \<or> c = CHR 0xEF then of_char c + 16 else of_char c)"

text \<open>
  \<^verbatim>\<open>Dashboard.fetchApiKeys\<close>: the tags are collected in a \<^verbatim>\<open>Set\<close> and sorted, which gives
  each tag once, in that order.
\<close>

definition Dashboard_fetchApiKeys ::
  "thrown option \<Rightarrow> (ApiKey \<Rightarrow> 'o::linorder) \<Rightarrow> Dashboard_state \<Rightarrow> world
     \<Rightarrow> Dashboard_state \<times> world" where
  "Dashboard_fetchApiKeys err ord st w =
     (case db_select err (\<lambda>r. True) ord w of
        (Inl e, w') \<Rightarrow>
          (st\<lparr>dashboard_state.loading := True\<rparr>\<lparr>dashboard_state.loading := False\<rparr>,
           w'\<lparr>console := console w' @ [''Error fetching API keys:'']\<rparr>)
      | (Inr data, w') \<Rightarrow>
          (st\<lparr>dashboard_state.loading := True\<rparr>
             \<lparr>apiKeys := data,
              allTags := sort_key (map utf16_rank) (remdups (concat (map tags data))),
              dashboard_state.loading := False\<rparr>, w'))"

text \<open>
  \<^verbatim>\<open>handleDelete(id)\<close>, the same text in \<^verbatim>\<open>Dashboard\<close>, \<^verbatim>\<open>MainDashboard\<close> and
  \<^verbatim>\<open>WebsitePage\<close>; \<open>fetchApiKeys\<close> is the component's own. \<open>confirmed\<close> is the answer of
  the \<^verbatim>\<open>confirm\<close> dialog.
\<close>

definition handleDelete ::
  "('s \<Rightarrow> world \<Rightarrow> 's \<times> world) \<Rightarrow> bool \<Rightarrow> thrown option \<Rightarrow> string \<Rightarrow> 's \<Rightarrow> world
     \<Rightarrow> 's \<times> world" where
  "handleDelete fetchApiKeys confirmed err i st w =
     (if \<not> confirmed then (st, w)
      else
        (case err of
           Some e \<Rightarrow>
             (st, (db_delete err i w)
                    \<lparr>console := console (db_delete err i w) @ [''Error deleting API key:'']\<rparr>)
         | None \<Rightarrow> fetchApiKeys st (db_delete err i w)))"

section \<open>The field encryption utility\<close>

text \<open>
  Modelled from the spec: \<^verbatim>\<open>lib/encryption\<close> (\<^verbatim>\<open>encrypt\<close>, \<^verbatim>\<open>decrypt\<close>) is not among the
  sources, and the spec gives its contract only. \<^verbatim>\<open>encrypt\<close> needs the process-wide key,
  may embed a nonce, and fails with \<^verbatim>\<open>EncryptionError\<close> when the key is unavailable;
  \<^verbatim>\<open>decrypt\<close> fails with \<^verbatim>\<open>DecryptionError\<close> when the ciphertext is malformed or was made
  under another key. The model is the ideal cipher of that contract: a ciphertext is a
  string that records the key instance and the nonce it was sealed with, in unary, ahead
  of the payload. Every byte string can be encoded, so that failure of \<^verbatim>\<open>encrypt\<close> has
  no case here.
\<close>

datatype crypto_error = EncryptionError | DecryptionError

text \<open>Modelled from the spec: the ciphertext that \<^verbatim>\<open>encrypt\<close> makes under key \<open>k\<close> with nonce \<open>n\<close>.\<close>

definition seal :: "nat \<Rightarrow> nat \<Rightarrow> string \<Rightarrow> string" where
  "seal k n s = replicate k (CHR ''k'') @ CHR '':'' # replicate n (CHR ''n'') @ CHR '':'' # s"

text \<open>Modelled from the spec: reading a ciphertext back; \<open>None\<close> when it is malformed.\<close>

definition unseal :: "string \<Rightarrow> (nat \<times> nat \<times> string) option" where
  "unseal c =
     (case dropWhile (\<lambda>x. x = CHR ''k'') c of
        [] \<Rightarrow> None
      | x # r \<Rightarrow>
          if x \<noteq> CHR '':'' then None
          else
            (case dropWhile (\<lambda>y. y = CHR ''n'') r of
               [] \<Rightarrow> None
             | y # s \<Rightarrow>
                 if y \<noteq> CHR '':'' then None
                 else Some (length (takeWhile (\<lambda>x. x = CHR ''k'') c),
                            length (takeWhile (\<lambda>y. y = CHR ''n'') r), s)))"

text \<open>Modelled from the spec: \<^verbatim>\<open>encrypt(plaintext) -> ciphertext\<close> of \<^verbatim>\<open>lib/encryption\<close>.\<close>

definition encrypt :: "nat option \<Rightarrow> nat \<Rightarrow> string \<Rightarrow> crypto_error + string" where
  "encrypt cryptoKey nonce plaintext =
     (case cryptoKey of
        None \<Rightarrow> Inl EncryptionError
      | Some k \<Rightarrow> Inr (seal k nonce plaintext))"

text \<open>Modelled from the spec: \<^verbatim>\<open>decrypt(ciphertext) -> plaintext\<close> of \<^verbatim>\<open>lib/encryption\<close>.\<close>

definition decrypt :: "nat option \<Rightarrow> string \<Rightarrow> crypto_error + string" where
  "decrypt cryptoKey ciphertext =
     (case cryptoKey of
        None \<Rightarrow> Inl DecryptionError
      | Some k \<Rightarrow>
          (case unseal ciphertext of
             None \<Rightarrow> Inl DecryptionError
           | Some (k', n, plaintext) \<Rightarrow>
               if k' = k then Inr plaintext else Inl DecryptionError))"

section \<open>Sample inputs\<close>

text \<open>
  Concrete inputs on which the statements below are evaluated: an empty browser, a
  \<open>decrypt\<close> that knows two ciphertexts and rejects every other string, a clipboard that
  accepts every write, an \<open>encrypt\<close> that tags its input, and an insert that succeeds.
\<close>

definition sample_browser :: browser where
  "sample_browser = \<lparr>clipboard = [], timers = [], decrypt_calls = []\<rparr>"

definition sample_dec :: "string \<Rightarrow> thrown + string" where
  "sample_dec c =
     (if c = ''CK'' then Inr ''sk-test-123''
      else if c = ''CP'' then Inr ''hunter2''
      else Inl (Error ''decrypt failed''))"

definition sample_writeText :: "string \<Rightarrow> thrown option" where
  "sample_writeText s = None"

definition sample_enc :: "nat \<Rightarrow> field \<Rightarrow> string \<Rightarrow> thrown + string" where
  "sample_enc j fld s = Inr (''enc:'' @ s)"

definition sample_insert :: "insert_row list \<Rightarrow> thrown option" where
  "sample_insert payload = None"

text \<open>
  An \<open>encrypt\<close> whose keys fail, and the \<open>encrypt\<close> of the encryption utility under key
  instance 1, with the position of the row as its nonce.
\<close>

definition failing_enc :: "nat \<Rightarrow> field \<Rightarrow> string \<Rightarrow> thrown + string" where
  "failing_enc j fld s = (if fld = Password then Inr (''enc:'' @ s) else Inl (Error (''bad '' @ s)))"


text \<open>
  A form with three rows: a key without a password, a blank key, and a key with a
  password; a form whose only row has a key of white space (a space and U+00A0); and a
  backend with two stored rows.
\<close>

definition sample_form :: modal_state where
  "sample_form =
     \<lparr>rows =
        [\<lparr>ApiKeyRow.id' = ''row-1'', email_username = ''me@example.com'', password = [],
          api_key = ''sk-abc'', notes' = []\<rparr>,
         \<lparr>ApiKeyRow.id' = ''row-2'', email_username = [], password = ''unused'',
          api_key = ''  '', notes' = []\<rparr>,
         \<lparr>ApiKeyRow.id' = ''row-3'', email_username = [], password = ''hunter2'',
          api_key = ''sk-xyz'', notes' = ''second''\<rparr>],
      loading = False, error = []\<rparr>"

definition blank_form :: modal_state where
  "blank_form =
     \<lparr>rows =
        [\<lparr>ApiKeyRow.id' = ''row-1'', email_username = [], password = [],
          api_key = [CHR 0x20, CHR 0xC2, CHR 0xA0], notes' = []\<rparr>],
      loading = False, error = []\<rparr>"

definition sample_payload :: "insert_row list" where
  "sample_payload =
     [\<lparr>user_id = ''u1'', service_name = ''OpenAI'', email_username = ''me@example.com'',
       encrypted_password = [], encrypted_api_key = ''enc:sk-abc'', notes' = [], tags = []\<rparr>,
      \<lparr>user_id = ''u1'', service_name = ''OpenAI'', email_username = [],
       encrypted_password = ''enc:hunter2'', encrypted_api_key = ''enc:sk-xyz'',
       notes' = ''second'', tags = []\<rparr>]"


definition sample_key :: "string \<Rightarrow> string \<Rightarrow> ApiKey" where
  "sample_key i created =
     \<lparr>user_id = ''u1'', service_name = ''OpenAI'', email_username = [],
      encrypted_password = [], encrypted_api_key = ''enc:sk-abc'', notes' = [], tags = [],
      id' = i, created_at = created, updated_at = created\<rparr>"

definition sample_world :: world where
  "sample_world =
     \<lparr>table = [sample_key ''k1'' ''2025-10-10'', sample_key ''k2'' ''2025-10-11''],
      db_calls = [], console = []\<rparr>"

section \<open>Properties of reveal and copy\<close>

lemma toggle_hide:
  "i \<in> visibleSet fld st \<Longrightarrow>
   toggleVisibility dec i fld c st br =
     (None, setVisibleSet fld (visibleSet fld st - {i}) st, br)"
  by (simp add: toggleVisibility_def)

lemma toggle_hit:
  "i \<notin> visibleSet fld st \<Longrightarrow> decryptedData st i = Some d \<Longrightarrow>
   toggleVisibility dec i fld c st br =
     (None, setVisibleSet fld (insert i (visibleSet fld st)) st, br)"
  by (simp add: toggleVisibility_def)

lemma visibleSet_set [simp]: "visibleSet fld (setVisibleSet fld S st) = S"
  by (simp add: visibleSet_def setVisibleSet_def)

lemma decryptedData_set [simp]: "decryptedData (setVisibleSet fld S st) = decryptedData st"
  by (simp add: setVisibleSet_def)

text \<open>
  C3. Reveal, hide, reveal on a record whose other field was revealed before. After the
  password of \<open>r1\<close> has been revealed (one call of \<open>decrypt\<close>, the password cell shows
  the plaintext), the first reveal of its key does not call \<open>decrypt\<close> and caches
  nothing: the key cell shows the fallback \<open>sk-***\<close>. Hiding the key gives back the state
  before that reveal, so the second reveal is the first once more and shows the
  fallback again. Over the whole sequence \<open>decrypt\<close> is never called on the ciphertext
  of the key, which decrypts to \<open>sk-test-123\<close>.
\<close>

theorem reveal_hide_reveal_after_password:
  "toggleVisibility sample_dec ''r1'' Password ''CP'' initial_table sample_browser =
     (None,
      \<lparr>visibleKeys = {}, visiblePasswords = {''r1''},
       decryptedData = [''r1'' \<mapsto> \<lparr>key = [], password = ''hunter2''\<rparr>], copiedId = None\<rparr>,
      \<lparr>clipboard = [], timers = [], decrypt_calls = [''CP'']\<rparr>) \<and>
   password_cell
      \<lparr>visibleKeys = {}, visiblePasswords = {''r1''},
       decryptedData = [''r1'' \<mapsto> \<lparr>key = [], password = ''hunter2''\<rparr>], copiedId = None\<rparr>
      ''r1'' ''CP'' = ''hunter2'' \<and>
   toggleVisibility sample_dec ''r1'' Key ''CK''
      \<lparr>visibleKeys = {}, visiblePasswords = {''r1''},
       decryptedData = [''r1'' \<mapsto> \<lparr>key = [], password = ''hunter2''\<rparr>], copiedId = None\<rparr>
      \<lparr>clipboard = [], timers = [], decrypt_calls = [''CP'']\<rparr> =
     (None,
      \<lparr>visibleKeys = {''r1''}, visiblePasswords = {''r1''},
       decryptedData = [''r1'' \<mapsto> \<lparr>key = [], password = ''hunter2''\<rparr>], copiedId = None\<rparr>,
      \<lparr>clipboard = [], timers = [], decrypt_calls = [''CP'']\<rparr>) \<and>
   toggleVisibility sample_dec ''r1'' Key ''CK''
      \<lparr>visibleKeys = {''r1''}, visiblePasswords = {''r1''},
       decryptedData = [''r1'' \<mapsto> \<lparr>key = [], password = ''hunter2''\<rparr>], copiedId = None\<rparr>
      \<lparr>clipboard = [], timers = [], decrypt_calls = [''CP'']\<rparr> =
     (None,
      \<lparr>visibleKeys = {}, visiblePasswords = {''r1''},
       decryptedData = [''r1'' \<mapsto> \<lparr>key = [], password = ''hunter2''\<rparr>], copiedId = None\<rparr>,
      \<lparr>clipboard = [], timers = [], decrypt_calls = [''CP'']\<rparr>) \<and>
   MainDashboard_key_cell
      \<lparr>visibleKeys = {''r1''}, visiblePasswords = {''r1''},
       decryptedData = [''r1'' \<mapsto> \<lparr>key = [], password = ''hunter2''\<rparr>], copiedId = None\<rparr>
      ''r1'' = ''sk-***'' \<and>
   ApiKeysTable_key_cell
      \<lparr>visibleKeys = {''r1''}, visiblePasswords = {''r1''},
       decryptedData = [''r1'' \<mapsto> \<lparr>key = [], password = ''hunter2''\<rparr>], copiedId = None\<rparr>
      ''r1'' = ''tvly-dev-***'' \<and>
   sample_dec ''CK'' = Inr ''sk-test-123''"
  by (simp add: toggleVisibility_def visibleSet_def setVisibleSet_def initial_table_def
      sample_dec_def sample_browser_def call_decrypt_def set_field_def password_cell_def
      MainDashboard_key_cell_def ApiKeysTable_key_cell_def key_cell_def)

text \<open>
  C4. The cache is consulted per record, not per field. On a fresh table, revealing the
  password of record \<open>r1\<close> decrypts and caches it; revealing the key of the same record
  afterwards finds an entry for \<open>r1\<close>, does not call \<open>decrypt\<close> (the calls stay at the one
  for the password) although no key is cached, and the revealed key cell shows the
  fallback \<open>sk-***\<close> instead of the plaintext that \<open>decrypt\<close> would have given.
\<close>

theorem key_reveal_after_password_reveal:
  "toggleVisibility sample_dec ''r1'' Password ''CP'' initial_table sample_browser =
     (None,
      \<lparr>visibleKeys = {}, visiblePasswords = {''r1''},
       decryptedData = [''r1'' \<mapsto> \<lparr>key = [], password = ''hunter2''\<rparr>], copiedId = None\<rparr>,
      \<lparr>clipboard = [], timers = [], decrypt_calls = [''CP'']\<rparr>) \<and>
   toggleVisibility sample_dec ''r1'' Key ''CK''
      \<lparr>visibleKeys = {}, visiblePasswords = {''r1''},
       decryptedData = [''r1'' \<mapsto> \<lparr>key = [], password = ''hunter2''\<rparr>], copiedId = None\<rparr>
      \<lparr>clipboard = [], timers = [], decrypt_calls = [''CP'']\<rparr> =
     (None,
      \<lparr>visibleKeys = {''r1''}, visiblePasswords = {''r1''},
       decryptedData = [''r1'' \<mapsto> \<lparr>key = [], password = ''hunter2''\<rparr>], copiedId = None\<rparr>,
      \<lparr>clipboard = [], timers = [], decrypt_calls = [''CP'']\<rparr>) \<and>
   MainDashboard_key_cell
      \<lparr>visibleKeys = {''r1''}, visiblePasswords = {''r1''},
       decryptedData = [''r1'' \<mapsto> \<lparr>key = [], password = ''hunter2''\<rparr>], copiedId = None\<rparr>
      ''r1'' = ''sk-***'' \<and>
   sample_dec ''CK'' = Inr ''sk-test-123''"
  by (simp add: toggleVisibility_def visibleSet_def setVisibleSet_def initial_table_def
      sample_dec_def sample_browser_def call_decrypt_def set_field_def
      MainDashboard_key_cell_def key_cell_def)

text \<open>
  A failed \<open>decrypt\<close> leaves the component as it was, so the field stays hidden.
\<close>

lemma toggle_miss_fail:
  "i \<notin> visibleSet fld st \<Longrightarrow> decryptedData st i = None \<Longrightarrow> dec c = Inl e \<Longrightarrow>
   toggleVisibility dec i fld c st br = (Some e, st, call_decrypt c br)"
  by (simp add: toggleVisibility_def)

text \<open>
  C5, as amended. When the ciphertext \<open>C\<close> decrypts to \<open>p\<close> and the clipboard accepts
  the write, \<open>copyToClipboard\<close> calls \<open>decrypt\<close> on \<open>C\<close> (on every call: the cache of
  revealed values is not read), puts exactly \<open>p\<close> on the clipboard, sets \<open>copiedId\<close> to
  the given id and schedules, with a delay of 2000 ms, the callback that clears it.
\<close>

theorem copyToClipboard_succeeds:
  assumes "dec C = Inr p" and "writeText p = None"
  shows "copyToClipboard dec writeText C cid st br =
           (None, st\<lparr>copiedId := Some cid\<rparr>,
            br\<lparr>clipboard := p, timers := timers br @ [(2000, SetCopiedId None)],
               decrypt_calls := decrypt_calls br @ [C]\<rparr>) \<and>
         (\<forall>st'. copiedId (fire (SetCopiedId None) st') = None)"
  using assms by (simp add: copyToClipboard_def call_decrypt_def)

theorem copyToClipboard_succeeds_witness:
  "sample_dec ''CK'' = Inr ''sk-test-123'' \<and> sample_writeText ''sk-test-123'' = None \<and>
   copyToClipboard sample_dec sample_writeText ''CK'' ''key-r1'' initial_table sample_browser =
     (None, initial_table\<lparr>copiedId := Some ''key-r1''\<rparr>,
      \<lparr>clipboard = ''sk-test-123'', timers = [(2000, SetCopiedId None)],
       decrypt_calls = [''CK'']\<rparr>) \<and>
   copiedId (fire (SetCopiedId None) (initial_table\<lparr>copiedId := Some ''key-r1''\<rparr>)) = None"
proof -
  have a: "sample_dec ''CK'' = Inr ''sk-test-123''" by (simp add: sample_dec_def)
  have b: "sample_writeText ''sk-test-123'' = None" by (simp add: sample_writeText_def)
  from copyToClipboard_succeeds [where dec = sample_dec and C = "''CK''" and
      writeText = sample_writeText and cid = "''key-r1''" and st = initial_table and
      br = sample_browser, OF a b] a b
  show ?thesis by (simp add: sample_browser_def)
qed

text \<open>
  C5 as stated fails: with the plaintext of the record already cached, the copy still
  calls \<open>decrypt\<close>.
\<close>

theorem copyToClipboard_ignores_cache:
  "decryptedData (initial_table\<lparr>decryptedData :=
        [''r1'' \<mapsto> \<lparr>key = ''sk-test-123'', password = []\<rparr>]\<rparr>) ''r1'' =
     Some \<lparr>key = ''sk-test-123'', password = []\<rparr> \<and>
   decrypt_calls sample_browser = [] \<and>
   decrypt_calls (snd (snd (copyToClipboard sample_dec sample_writeText ''CK'' ''key-r1''
        (initial_table\<lparr>decryptedData :=
           [''r1'' \<mapsto> \<lparr>key = ''sk-test-123'', password = []\<rparr>]\<rparr>) sample_browser))) = [''CK'']"
  by (simp add: copyToClipboard_def call_decrypt_def sample_dec_def sample_writeText_def
      sample_browser_def initial_table_def)

text \<open>
  C10. When \<open>decrypt\<close> rejects inside \<open>copyToClipboard\<close>, the call rejects with the
  same error, the component state (with \<open>copiedId\<close>) is unchanged, the clipboard is
  unchanged and no timer is scheduled; the only trace is the call to \<open>decrypt\<close>.
\<close>

theorem copyToClipboard_decrypt_fails:
  assumes "dec C = Inl e"
  shows "\<exists>br'. copyToClipboard dec writeText C cid st br = (Some e, st, br') \<and>
           clipboard br' = clipboard br \<and> timers br' = timers br \<and>
           decrypt_calls br' = decrypt_calls br @ [C]"
  using assms by (simp add: copyToClipboard_def call_decrypt_def)

theorem copyToClipboard_decrypt_fails_witness:
  "sample_dec ''garbage'' = Inl (Error ''decrypt failed'') \<and>
   (\<exists>br'. copyToClipboard sample_dec sample_writeText ''garbage'' ''key-r1'' initial_table
             sample_browser = (Some (Error ''decrypt failed''), initial_table, br') \<and>
          clipboard br' = [] \<and> timers br' = [] \<and> decrypt_calls br' = [''garbage''])"
proof -
  have a: "sample_dec ''garbage'' = Inl (Error ''decrypt failed'')"
    by (simp add: sample_dec_def)
  from copyToClipboard_decrypt_fails [where dec = sample_dec and C = "''garbage''" and
      writeText = sample_writeText and cid = "''key-r1''" and st = initial_table and
      br = sample_browser, OF a] a
  show ?thesis by (simp add: sample_browser_def)
qed

section \<open>Properties of the encryption contract\<close>

lemma run_same: "(\<forall>y\<in>set xs. y = a) \<Longrightarrow> xs = replicate (length xs) a"
  by (simp add: replicate_length_same)

lemma takeWhile_run:
  "takeWhile (\<lambda>x. x = a) xs = replicate (length (takeWhile (\<lambda>x. x = a) xs)) a"
  by (rule run_same) (auto dest: set_takeWhileD)

lemma dropWhile_run_app:
  "b \<noteq> a \<Longrightarrow> dropWhile (\<lambda>x. x = a) (replicate m a @ b # ys) = b # ys"
  by (induction m) auto

lemma takeWhile_run_app:
  "b \<noteq> a \<Longrightarrow> takeWhile (\<lambda>x. x = a) (replicate m a @ b # ys) = replicate m a"
  by (induction m) auto

lemma unseal_seal: "unseal (seal k n s) = Some (k, n, s)"
  by (simp add: unseal_def seal_def dropWhile_run_app takeWhile_run_app)

lemma seal_unseal:
  assumes "unseal c = Some (k, n, s)"
  shows "c = seal k n s"
proof -
  let ?K = "\<lambda>x. x = CHR ''k''" and ?N = "\<lambda>y. y = CHR ''n''"
  from assms obtain r where r: "dropWhile ?K c = CHR '':'' # r"
    by (auto simp: unseal_def split: list.splits if_splits)
  from assms r have s: "dropWhile ?N r = CHR '':'' # s"
    and k: "k = length (takeWhile ?K c)" and n: "n = length (takeWhile ?N r)"
    by (auto simp: unseal_def split: list.splits if_splits)
  have "c = takeWhile ?K c @ dropWhile ?K c" by simp
  also have "takeWhile ?K c = replicate k (CHR ''k'')" unfolding k by (rule takeWhile_run)
  also have "dropWhile ?K c = CHR '':'' # (takeWhile ?N r @ dropWhile ?N r)" using r by simp
  also have "takeWhile ?N r = replicate n (CHR ''n'')" unfolding n by (rule takeWhile_run)
  finally show ?thesis using s by (simp add: seal_def)
qed


text \<open>
  C1. Round trip: with the key available, encrypting any plaintext \<open>s\<close> under any nonce
  \<open>n\<close> gives a ciphertext, and decrypting that ciphertext gives \<open>s\<close> back. The nonce is
  free, so two calls on the same plaintext may give different ciphertexts and both
  decrypt to it.
\<close>

theorem decrypt_encrypt:
  "\<exists>c. encrypt (Some k) n s = Inr c \<and> decrypt (Some k) c = Inr s"
  by (simp add: encrypt_def decrypt_def unseal_seal)

text \<open>
  C6. A ciphertext made under another key instance is rejected with
  \<open>DecryptionError\<close>; so is every string that is not a sealed ciphertext; and whenever
  \<open>decrypt\<close> does return a plaintext, it is the plaintext that was sealed under the
  key in use, so no wrong plaintext is ever returned.
\<close>

theorem decrypt_rejects:
  "(k' \<noteq> k \<longrightarrow>
      (\<exists>c. encrypt (Some k) n s = Inr c \<and> decrypt (Some k') c = Inl DecryptionError)) \<and>
   ((\<forall>k n s. c \<noteq> seal k n s) \<longrightarrow> decrypt cryptoKey c = Inl DecryptionError) \<and>
   (decrypt cryptoKey c = Inr p \<longrightarrow> (\<exists>k n. cryptoKey = Some k \<and> c = seal k n p))"
proof (intro conjI impI)
  assume "k' \<noteq> k"
  then show "\<exists>c. encrypt (Some k) n s = Inr c \<and> decrypt (Some k') c = Inl DecryptionError"
    by (simp add: encrypt_def decrypt_def unseal_seal)
next
  assume none: "\<forall>k n s. c \<noteq> seal k n s"
  have "unseal c = None"
  proof (cases "unseal c")
    case None
    then show ?thesis .
  next
    case (Some t)
    obtain k n s where "t = (k, n, s)" by (cases t) auto
    with Some have "c = seal k n s" by (simp add: seal_unseal)
    with none show ?thesis by blast
  qed
  then show "decrypt cryptoKey c = Inl DecryptionError"
    by (simp add: decrypt_def split: option.splits)
next
  assume "decrypt cryptoKey c = Inr p"
  then obtain k n where "cryptoKey = Some k" and "unseal c = Some (k, n, p)"
    by (auto simp: decrypt_def split: option.splits if_splits)
  then have "cryptoKey = Some k \<and> c = seal k n p"
    by (simp add: seal_unseal)
  then show "\<exists>k n. cryptoKey = Some k \<and> c = seal k n p" by blast
qed

theorem decrypt_rejects_witness:
  "(2::nat) \<noteq> 1 \<and> (\<forall>k n s. ''not a ciphertext'' \<noteq> seal k n s) \<and>
   decrypt (Some 1) (seal 1 0 ''sk-abc'') = Inr ''sk-abc'' \<and>
   (\<exists>c. encrypt (Some 1) 7 ''sk-abc'' = Inr c \<and> decrypt (Some 2) c = Inl DecryptionError) \<and>
   decrypt (Some 1) ''not a ciphertext'' = Inl DecryptionError \<and>
   (\<exists>k n. Some (1::nat) = Some k \<and> seal 1 0 ''sk-abc'' = seal k n ''sk-abc'')"
proof -
  have a: "(2::nat) \<noteq> 1" by simp
  have b: "\<forall>k n s. ''not a ciphertext'' \<noteq> seal k n s"
  proof (intro allI notI)
    fix k n s assume "''not a ciphertext'' = seal k n s"
    then have "unseal ''not a ciphertext'' = Some (k, n, s)" by (simp add: unseal_seal)
    then show False by (simp add: unseal_def)
  qed
  have c: "decrypt (Some 1) (seal 1 0 ''sk-abc'') = Inr ''sk-abc''"
    by (simp add: decrypt_def unseal_seal)
  from decrypt_rejects [of 2 1 7 "''sk-abc''" "''not a ciphertext''" "Some 1"]
       decrypt_rejects [of 2 1 7 "''sk-abc''" "seal 1 0 ''sk-abc''" "Some 1" "''sk-abc''"]
       a b c
  show ?thesis by blast
qed

section \<open>Properties of the mass-add form\<close>

lemma encrypt_row_Inr:
  assumes "encrypt_row enc uid sn j row = Inr p"
  shows "\<exists>ep ek.
      p = \<lparr>user_id = uid, service_name = sn,
           email_username = ApiKeyRow.email_username row,
           encrypted_password = ep, encrypted_api_key = ek,
           notes' = ApiKeyRow.notes' row, tags = []\<rparr> \<and>
      enc j Key (api_key row) = Inr ek \<and>
      (if ApiKeyRow.password row = [] then ep = []
       else enc j Password (ApiKeyRow.password row) = Inr ep)"
  using assms by (auto simp: encrypt_row_def split: if_splits sum.splits)

lemma Promise_all_Inr:
  assumes "Promise_all race ps = Inr vs"
  shows "map Inr vs = ps"
proof -
  from assms have none: "rejections ps = []" and vs: "vs = fulfilled ps"
    by (auto simp: Promise_all_def split: if_splits)
  from none have "map Inr (fulfilled ps) = ps"
  proof (induction ps)
    case Nil
    then show ?case by (simp add: fulfilled_def)
  next
    case (Cons p ps)
    then show ?case
      by (cases p) (auto simp: fulfilled_def rejections_def)
  qed
  with vs show ?thesis by simp
qed

lemma Promise_all_Inl:
  assumes "Promise_all race ps = Inl e"
  shows "Inl e \<in> set ps"
proof -
  from assms have ne: "rejections ps \<noteq> []"
    and e: "e = rejections ps ! (race mod length (rejections ps))"
    by (auto simp: Promise_all_def split: if_splits)
  from ne have "race mod length (rejections ps) < length (rejections ps)" by simp
  with e have "e \<in> set (rejections ps)" by simp
  then show ?thesis
    by (auto simp: rejections_def List.map_filter_def split: sum.splits)
qed

lemma encrypt_rows_Inr:
  assumes "encrypt_rows enc race uid sn rs = Inr ps"
  shows "length ps = length rs \<and>
         (\<forall>m<length rs. encrypt_row enc uid sn m (rs ! m) = Inr (ps ! m))"
proof -
  let ?f = "\<lambda>(j, row). encrypt_row enc uid sn j row"
  from assms have eq: "map Inr ps = map ?f (enumerate 0 rs)"
    by (simp add: encrypt_rows_def Promise_all_Inr)
  then have len: "length ps = length rs"
    by (metis length_enumerate length_map)
  have "encrypt_row enc uid sn m (rs ! m) = Inr (ps ! m)" if m: "m < length rs" for m
  proof -
    from eq have "map Inr ps ! m = map ?f (enumerate 0 rs) ! m" by simp
    with m len show ?thesis by (simp add: nth_enumerate_eq)
  qed
  with len show ?thesis by blast
qed

lemma encrypt_rows_Inl:
  assumes "encrypt_rows enc race uid sn rs = Inl e"
  shows "\<exists>m<length rs. encrypt_row enc uid sn m (rs ! m) = Inl e"
proof -
  let ?f = "\<lambda>(j, row). encrypt_row enc uid sn j row"
  from assms have "Inl e \<in> set (map ?f (enumerate 0 rs))"
    unfolding encrypt_rows_def by (rule Promise_all_Inl)
  then obtain m where m: "m < length (enumerate 0 rs)"
    and at: "map ?f (enumerate 0 rs) ! m = Inl e"
    by (metis in_set_conv_nth length_map)
  then have "m < length rs \<and> encrypt_row enc uid sn m (rs ! m) = Inl e"
    by (simp add: nth_enumerate_eq)
  then show ?thesis by blast
qed

lemma handleSubmit_inserted:
  assumes "inserted (snd (handleSubmit getUser enc race ins sn st)) = Some payload"
  shows "\<exists>uid. getUser = Inr (Some uid) \<and> validRows (rows st) \<noteq> [] \<and>
           encrypt_rows enc race uid sn (validRows (rows st)) = Inr payload"
  using assms
  by (auto simp: handleSubmit_def submit_try_def no_effects_def
      split: sum.splits option.splits if_splits)

lemma handleSubmit_success:
  assumes "getUser = Inr (Some uid)" and "validRows (rows st) \<noteq> []"
    and "encrypt_rows enc race uid sn (validRows (rows st)) = Inr payload"
    and "ins payload = None"
  shows "handleSubmit getUser enc race ins sn st =
           (st\<lparr>error := [], modal_state.loading := False\<rparr>,
            \<lparr>inserted = Some payload, closed = True\<rparr>)"
  using assms by (simp add: handleSubmit_def submit_try_def)

lemma trim_samples:
  "trim [] = []"
  "trim '' '' = []"
  "trim ''  '' = []"
  "trim [CHR 0x20, CHR 0xC2, CHR 0xA0] = []"
  "trim ''sk-abc'' = ''sk-abc''"
  "trim ''sk-xyz'' = ''sk-xyz''"
  by (simp_all add: trim_def white_space_def trimStart.simps)

lemma sample_valid:
  "validRows (rows sample_form) =
     [\<lparr>ApiKeyRow.id' = ''row-1'', email_username = ''me@example.com'', password = [],
          api_key = ''sk-abc'', notes' = []\<rparr>,
      \<lparr>ApiKeyRow.id' = ''row-3'', email_username = [], password = ''hunter2'',
          api_key = ''sk-xyz'', notes' = ''second''\<rparr>]"
  by (simp add: validRows_def sample_form_def trim_samples)

lemma blank_valid: "validRows (rows blank_form) = []"
  by (simp add: validRows_def blank_form_def trim_samples)

lemma sample_encrypted:
  "encrypt_rows sample_enc race ''u1'' ''OpenAI'' (validRows (rows sample_form)) =
     Inr sample_payload"
  by (simp add: sample_valid encrypt_rows_def Promise_all_def rejections_def fulfilled_def
      encrypt_row_def sample_enc_def sample_payload_def)

lemma sample_submit:
  "handleSubmit (Inr (Some ''u1'')) sample_enc race sample_insert ''OpenAI'' sample_form =
     (sample_form, \<lparr>inserted = Some sample_payload, closed = True\<rparr>)"
proof -
  have "validRows (rows sample_form) \<noteq> []" by (simp add: sample_valid)
  from handleSubmit_success [where getUser = "Inr (Some ''u1'')" and uid = "''u1''" and
      st = sample_form and enc = sample_enc and sn = "''OpenAI''" and race = race and
      payload = sample_payload and ins = sample_insert, OF refl this sample_encrypted]
  show ?thesis by (simp add: sample_insert_def sample_form_def)
qed

text \<open>
  C2. Whenever a submission makes an insert, the user is logged in and every row of the
  payload is built from a valid row of the form as follows: \<open>encrypted_api_key\<close> is the
  output of \<open>encrypt\<close> on the row's \<open>api_key\<close>, \<open>encrypted_password\<close> is the output of
  \<open>encrypt\<close> on the row's password or, when the password is empty, the empty string, and
  the other columns are the id of the user, the service name, the e-mail and the notes.
  The payload row has no other content, so the plaintext key and password enter it
  only through \<open>encrypt\<close>.
\<close>

theorem inserted_rows_carry_ciphertext:
  assumes ins: "inserted (snd (handleSubmit getUser enc race ins sn st)) = Some payload"
    and m: "m < length payload"
  shows "\<exists>uid ep ek.
      getUser = Inr (Some uid) \<and>
      m < length (validRows (rows st)) \<and>
      payload ! m =
        \<lparr>user_id = uid, service_name = sn,
         email_username = ApiKeyRow.email_username (validRows (rows st) ! m),
         encrypted_password = ep, encrypted_api_key = ek,
         notes' = ApiKeyRow.notes' (validRows (rows st) ! m), tags = []\<rparr> \<and>
      enc m Key (api_key (validRows (rows st) ! m)) = Inr ek \<and>
      (if ApiKeyRow.password (validRows (rows st) ! m) = [] then ep = []
       else enc m Password (ApiKeyRow.password (validRows (rows st) ! m)) = Inr ep)"
proof -
  from handleSubmit_inserted [OF ins] obtain uid where user: "getUser = Inr (Some uid)"
    and rows: "encrypt_rows enc race uid sn (validRows (rows st)) = Inr payload" by blast
  from encrypt_rows_Inr [OF rows] m have len: "m < length (validRows (rows st))"
    and row: "encrypt_row enc uid sn m (validRows (rows st) ! m) = Inr (payload ! m)"
    by auto
  from encrypt_row_Inr [OF row] len user show ?thesis by blast
qed

theorem inserted_rows_carry_ciphertext_witness:
  "inserted (snd (handleSubmit (Inr (Some ''u1'')) sample_enc 0 sample_insert ''OpenAI''
      sample_form)) = Some sample_payload \<and>
   0 < length sample_payload \<and> 1 < length sample_payload \<and>
   (\<exists>ep ek.
      sample_payload ! 0 =
        \<lparr>user_id = ''u1'', service_name = ''OpenAI'', email_username = ''me@example.com'',
         encrypted_password = ep, encrypted_api_key = ek, notes' = [], tags = []\<rparr> \<and>
      sample_enc 0 Key ''sk-abc'' = Inr ek \<and> ep = []) \<and>
   (\<exists>ep ek.
      sample_payload ! 1 =
        \<lparr>user_id = ''u1'', service_name = ''OpenAI'', email_username = [],
         encrypted_password = ep, encrypted_api_key = ek, notes' = ''second'', tags = []\<rparr> \<and>
      sample_enc 1 Key ''sk-xyz'' = Inr ek \<and> sample_enc 1 Password ''hunter2'' = Inr ep)"
proof -
  have a: "inserted (snd (handleSubmit (Inr (Some ''u1'')) sample_enc 0 sample_insert ''OpenAI''
      sample_form)) = Some sample_payload"
    by (simp add: sample_submit)
  have b0: "0 < length sample_payload" and b1: "1 < length sample_payload"
    by (simp_all add: sample_payload_def)
  from inserted_rows_carry_ciphertext [OF a b0] inserted_rows_carry_ciphertext [OF a b1]
    a b0 b1
  show ?thesis by (simp add: sample_valid)
qed





text \<open>
  C9, as amended. For a submission by a logged-in user: when no row has a key that is
  non-blank after trimming, no insert is made, the error is
  \<open>At least one row must have an API key\<close>, and the rest of the state is unchanged;
  otherwise, when the valid rows all encrypt, the insert is made with exactly their
  encryptions, one per valid row and in the order of the form; and when an encryption
  fails, no insert is made and the error is the message of one of the rows that failed.
\<close>

theorem submit_when_logged_in:
  assumes user: "getUser = Inr (Some uid)"
  shows "(validRows (rows st) = [] \<longrightarrow>
            handleSubmit getUser enc race ins sn st =
              (st\<lparr>error := ''At least one row must have an API key'',
                  modal_state.loading := False\<rparr>, no_effects)) \<and>
         (\<forall>payload. validRows (rows st) \<noteq> [] \<and>
              encrypt_rows enc race uid sn (validRows (rows st)) = Inr payload \<longrightarrow>
            inserted (snd (handleSubmit getUser enc race ins sn st)) = Some payload \<and>
            length payload = length (validRows (rows st)) \<and>
            (\<forall>m<length payload.
               encrypt_row enc uid sn m (validRows (rows st) ! m) = Inr (payload ! m))) \<and>
         (\<forall>e. validRows (rows st) \<noteq> [] \<and>
              encrypt_rows enc race uid sn (validRows (rows st)) = Inl e \<longrightarrow>
            handleSubmit getUser enc race ins sn st =
              (st\<lparr>error := message e, modal_state.loading := False\<rparr>, no_effects) \<and>
            (\<exists>m<length (validRows (rows st)).
               encrypt_row enc uid sn m (validRows (rows st) ! m) = Inl e))"
proof (intro conjI allI impI)
  assume "validRows (rows st) = []"
  then show "handleSubmit getUser enc race ins sn st =
      (st\<lparr>error := ''At least one row must have an API key'', modal_state.loading := False\<rparr>,
       no_effects)"
    using user by (simp add: handleSubmit_def submit_try_def)
next
  fix payload
  assume a: "validRows (rows st) \<noteq> [] \<and>
      encrypt_rows enc race uid sn (validRows (rows st)) = Inr payload"
  then show "inserted (snd (handleSubmit getUser enc race ins sn st)) = Some payload"
    using user by (simp add: handleSubmit_def submit_try_def split: option.splits)
  from a encrypt_rows_Inr [of enc race uid sn "validRows (rows st)" payload]
  show "length payload = length (validRows (rows st))" by simp
  fix m assume "m < length payload"
  with a encrypt_rows_Inr [of enc race uid sn "validRows (rows st)" payload]
  show "encrypt_row enc uid sn m (validRows (rows st) ! m) = Inr (payload ! m)" by simp
next
  fix e
  assume a: "validRows (rows st) \<noteq> [] \<and>
      encrypt_rows enc race uid sn (validRows (rows st)) = Inl e"
  then show "handleSubmit getUser enc race ins sn st =
      (st\<lparr>error := message e, modal_state.loading := False\<rparr>, no_effects)"
    using user by (simp add: handleSubmit_def submit_try_def)
  from a have "encrypt_rows enc race uid sn (validRows (rows st)) = Inl e" by simp
  then show "\<exists>m<length (validRows (rows st)).
      encrypt_row enc uid sn m (validRows (rows st) ! m) = Inl e"
    by (rule encrypt_rows_Inl)
qed

theorem submit_when_logged_in_witness:
  "(Inr (Some ''u1'') :: thrown + string option) = Inr (Some ''u1'') \<and>
   validRows (rows blank_form) = [] \<and>
   handleSubmit (Inr (Some ''u1'')) sample_enc 0 sample_insert ''OpenAI'' blank_form =
     (blank_form\<lparr>error := ''At least one row must have an API key''\<rparr>, no_effects) \<and>
   validRows (rows sample_form) \<noteq> [] \<and>
   encrypt_rows sample_enc 0 ''u1'' ''OpenAI'' (validRows (rows sample_form)) =
     Inr sample_payload \<and>
   inserted (snd (handleSubmit (Inr (Some ''u1'')) sample_enc 0 sample_insert ''OpenAI''
       sample_form)) = Some sample_payload \<and>
   length sample_payload = length (validRows (rows sample_form)) \<and>
   encrypt_rows failing_enc 1 ''u1'' ''OpenAI'' (validRows (rows sample_form)) =
     Inl (Error ''bad sk-xyz'') \<and>
   handleSubmit (Inr (Some ''u1'')) failing_enc 1 sample_insert ''OpenAI'' sample_form =
     (sample_form\<lparr>error := ''bad sk-xyz''\<rparr>, no_effects)"
proof -
  have v1: "validRows (rows sample_form) \<noteq> []" by (simp add: sample_valid)
  have bad: "encrypt_rows failing_enc 1 ''u1'' ''OpenAI'' (validRows (rows sample_form)) =
      Inl (Error ''bad sk-xyz'')"
    by (simp add: sample_valid encrypt_rows_def Promise_all_def rejections_def fulfilled_def
        encrypt_row_def failing_enc_def)
  from submit_when_logged_in [where getUser = "Inr (Some ''u1'')" and uid = "''u1''" and
      st = blank_form and enc = sample_enc and race = 0 and ins = sample_insert and
      sn = "''OpenAI''", OF refl]
    submit_when_logged_in [where getUser = "Inr (Some ''u1'')" and uid = "''u1''" and
      st = sample_form and enc = sample_enc and race = 0 and ins = sample_insert and
      sn = "''OpenAI''", OF refl]
    submit_when_logged_in [where getUser = "Inr (Some ''u1'')" and uid = "''u1''" and
      st = sample_form and enc = failing_enc and race = 1 and ins = sample_insert and
      sn = "''OpenAI''", OF refl]
    blank_valid v1 sample_encrypted [of 0] bad
  show ?thesis by (simp add: sample_form_def blank_form_def)
qed

text \<open>
  C9 as stated fails when nobody is logged in: a form whose only key is blank then
  reports that the user must log in, not that a key is missing.
\<close>

theorem not_logged_in_message:
  "validRows [\<lparr>ApiKeyRow.id' = ''row-1'', email_username = [], password = [], api_key = '' '',
              notes' = []\<rparr>] = [] \<and>
   handleSubmit (Inr None) sample_enc 0 sample_insert ''OpenAI''
      \<lparr>rows = [\<lparr>ApiKeyRow.id' = ''row-1'', email_username = [], password = [], api_key = '' '',
                 notes' = []\<rparr>], loading = False, error = []\<rparr> =
     (\<lparr>rows = [\<lparr>ApiKeyRow.id' = ''row-1'', email_username = [], password = [], api_key = '' '',
                 notes' = []\<rparr>], loading = False,
       error = ''You must be logged in to add API keys''\<rparr>, no_effects) \<and>
   ''You must be logged in to add API keys'' \<noteq> ''At least one row must have an API key''"
  by (simp add: validRows_def trim_samples handleSubmit_def submit_try_def)

section \<open>Properties of deletion\<close>

lemma handleDelete_confirmed:
  "handleDelete fetch True None i st w = fetch st (db_delete None i w)"
  by (simp add: handleDelete_def)

lemma MainDashboard_fetch_ok:
  "MainDashboard_fetchApiKeys None ord st w =
     (st\<lparr>apiKeys := sort_key ord (table w), dashboard_state.loading := False\<rparr>,
      w\<lparr>db_calls := db_calls w @ [Select]\<rparr>)"
  by (simp add: MainDashboard_fetchApiKeys_def db_select_def)

lemma Dashboard_fetch_ok:
  "Dashboard_fetchApiKeys None ord st w =
     (st\<lparr>apiKeys := sort_key ord (table w),
         allTags := sort_key (map utf16_rank) (remdups (concat (map tags (sort_key ord (table w))))),
         dashboard_state.loading := False\<rparr>,
      w\<lparr>db_calls := db_calls w @ [Select]\<rparr>)"
  by (simp add: Dashboard_fetchApiKeys_def db_select_def)

lemma fetch_world:
  "snd (MainDashboard_fetchApiKeys sel ord st w) =
     (case sel of None \<Rightarrow> w\<lparr>db_calls := db_calls w @ [Select]\<rparr>
      | Some e \<Rightarrow> w\<lparr>db_calls := db_calls w @ [Select],
                    console := console w @ [''Error fetching API keys:'']\<rparr>)"
  "snd (Dashboard_fetchApiKeys sel ord st' w) =
     (case sel of None \<Rightarrow> w\<lparr>db_calls := db_calls w @ [Select]\<rparr>
      | Some e \<Rightarrow> w\<lparr>db_calls := db_calls w @ [Select],
                    console := console w @ [''Error fetching API keys:'']\<rparr>)"
  by (simp_all add: MainDashboard_fetchApiKeys_def Dashboard_fetchApiKeys_def db_select_def
      split: option.splits)

text \<open>
  C8. Declined, \<open>handleDelete\<close> returns the state and the backend as they were: no call
  is made. Confirmed, with a delete that succeeds, the backend has received the delete
  followed by the select of the re-fetch, the list of \<open>MainDashboard\<close> and of \<open>Dashboard\<close> is
  the query over the remaining rows, no row of that list has the deleted id, and no
  later select that succeeds returns a row with that id, whether or not the re-fetch
  itself succeeded.
\<close>

theorem delete_gated_by_confirmation:
  "handleDelete fetch False err i st w = (st, w) \<and>
   handleDelete (MainDashboard_fetchApiKeys None ord) True None i st1 w =
     (st1\<lparr>apiKeys := sort_key ord (filter (\<lambda>r. ApiKey.id' r \<noteq> i) (table w)),
          dashboard_state.loading := False\<rparr>,
      w\<lparr>table := filter (\<lambda>r. ApiKey.id' r \<noteq> i) (table w),
        db_calls := db_calls w @ [Delete i, Select]\<rparr>) \<and>
   handleDelete (Dashboard_fetchApiKeys None ord) True None i st2 w =
     (st2\<lparr>apiKeys := sort_key ord (filter (\<lambda>r. ApiKey.id' r \<noteq> i) (table w)),
          allTags := sort_key (map utf16_rank) (remdups (concat (map tags
             (sort_key ord (filter (\<lambda>r. ApiKey.id' r \<noteq> i) (table w)))))),
          dashboard_state.loading := False\<rparr>,
      w\<lparr>table := filter (\<lambda>r. ApiKey.id' r \<noteq> i) (table w),
        db_calls := db_calls w @ [Delete i, Select]\<rparr>) \<and>
   (\<forall>r \<in> set (apiKeys (fst (handleDelete (MainDashboard_fetchApiKeys None ord) True None i st1 w))).
      ApiKey.id' r \<noteq> i) \<and>
   (\<forall>r \<in> set (apiKeys (fst (handleDelete (Dashboard_fetchApiKeys None ord) True None i st2 w))).
      ApiKey.id' r \<noteq> i) \<and>
   (\<forall>sel flt ord' rs w'.
      db_select None flt ord'
        (snd (handleDelete (MainDashboard_fetchApiKeys sel ord) True None i st1 w)) = (Inr rs, w')
      \<longrightarrow> (\<forall>r \<in> set rs. ApiKey.id' r \<noteq> i)) \<and>
   (\<forall>sel flt ord' rs w'.
      db_select None flt ord'
        (snd (handleDelete (Dashboard_fetchApiKeys sel ord) True None i st2 w)) = (Inr rs, w')
      \<longrightarrow> (\<forall>r \<in> set rs. ApiKey.id' r \<noteq> i))"
proof (intro conjI)
  show "handleDelete fetch False err i st w = (st, w)"
    by (simp add: handleDelete_def)
  show m: "handleDelete (MainDashboard_fetchApiKeys None ord) True None i st1 w =
     (st1\<lparr>apiKeys := sort_key ord (filter (\<lambda>r. ApiKey.id' r \<noteq> i) (table w)),
          dashboard_state.loading := False\<rparr>,
      w\<lparr>table := filter (\<lambda>r. ApiKey.id' r \<noteq> i) (table w),
        db_calls := db_calls w @ [Delete i, Select]\<rparr>)"
    by (simp add: handleDelete_confirmed MainDashboard_fetch_ok db_delete_def)
  show d: "handleDelete (Dashboard_fetchApiKeys None ord) True None i st2 w =
     (st2\<lparr>apiKeys := sort_key ord (filter (\<lambda>r. ApiKey.id' r \<noteq> i) (table w)),
          allTags := sort_key (map utf16_rank) (remdups (concat (map tags
             (sort_key ord (filter (\<lambda>r. ApiKey.id' r \<noteq> i) (table w)))))),
          dashboard_state.loading := False\<rparr>,
      w\<lparr>table := filter (\<lambda>r. ApiKey.id' r \<noteq> i) (table w),
        db_calls := db_calls w @ [Delete i, Select]\<rparr>)"
    by (simp add: handleDelete_confirmed Dashboard_fetch_ok db_delete_def)
  show "\<forall>r \<in> set (apiKeys (fst (handleDelete (MainDashboard_fetchApiKeys None ord) True None i st1 w))).
      ApiKey.id' r \<noteq> i"
    by (simp add: m)
  show "\<forall>r \<in> set (apiKeys (fst (handleDelete (Dashboard_fetchApiKeys None ord) True None i st2 w))).
      ApiKey.id' r \<noteq> i"
    by (simp add: d)
  show "\<forall>sel flt ord' rs w'.
      db_select None flt ord'
        (snd (handleDelete (MainDashboard_fetchApiKeys sel ord) True None i st1 w)) = (Inr rs, w')
      \<longrightarrow> (\<forall>r \<in> set rs. ApiKey.id' r \<noteq> i)"
    by (auto simp: handleDelete_confirmed fetch_world db_select_def db_delete_def
        split: option.splits)
  show "\<forall>sel flt ord' rs w'.
      db_select None flt ord'
        (snd (handleDelete (Dashboard_fetchApiKeys sel ord) True None i st2 w)) = (Inr rs, w')
      \<longrightarrow> (\<forall>r \<in> set rs. ApiKey.id' r \<noteq> i)"
    by (auto simp: handleDelete_confirmed fetch_world db_select_def db_delete_def
        split: option.splits)
qed

theorem delete_gated_by_confirmation_witness:
  "handleDelete (MainDashboard_fetchApiKeys None created_at) False None ''k1''
      \<lparr>apiKeys = table sample_world, loading = False\<rparr> sample_world =
     (\<lparr>apiKeys = table sample_world, loading = False\<rparr>, sample_world) \<and>
   handleDelete (MainDashboard_fetchApiKeys None created_at) True None ''k1''
      \<lparr>apiKeys = table sample_world, loading = False\<rparr> sample_world =
     (\<lparr>apiKeys = [sample_key ''k2'' ''2025-10-11''], loading = False\<rparr>,
      \<lparr>table = [sample_key ''k2'' ''2025-10-11''], db_calls = [Delete ''k1'', Select],
       console = []\<rparr>) \<and>
   db_select None (\<lambda>r. True) created_at
      (snd (handleDelete (MainDashboard_fetchApiKeys None created_at) True None ''k1''
         \<lparr>apiKeys = table sample_world, loading = False\<rparr> sample_world)) =
     (Inr [sample_key ''k2'' ''2025-10-11''],
      \<lparr>table = [sample_key ''k2'' ''2025-10-11''],
       db_calls = [Delete ''k1'', Select, Select], console = []\<rparr>) \<and>
   sample_key ''k2'' ''2025-10-11'' \<in> set (apiKeys (fst
      (handleDelete (MainDashboard_fetchApiKeys None created_at) True None ''k1''
         \<lparr>apiKeys = table sample_world, loading = False\<rparr> sample_world))) \<and>
   ApiKey.id' (sample_key ''k2'' ''2025-10-11'') \<noteq> ''k1'' \<and>
   ApiKey.id' (sample_key ''k1'' ''2025-10-10'') = ''k1'' \<and>
   sample_key ''k1'' ''2025-10-10'' \<in> set (table sample_world)"
proof -
  let ?st = "\<lparr>apiKeys = table sample_world, loading = False\<rparr>"
  have del: "filter (\<lambda>r. ApiKey.id' r \<noteq> ''k1'') (table sample_world) =
      [sample_key ''k2'' ''2025-10-11'']"
    by (simp add: sample_world_def sample_key_def)
  note t = delete_gated_by_confirmation [where fetch = "MainDashboard_fetchApiKeys None created_at"
      and err = None and i = "''k1''" and st = ?st and w = sample_world and ord = created_at
      and ?st1.0 = ?st and ?st2.0 = "\<lparr>apiKeys = [], loading = False, allTags = []\<rparr>"]
  have a: "handleDelete (MainDashboard_fetchApiKeys None created_at) False None ''k1''
      ?st sample_world = (?st, sample_world)" by (rule t [THEN conjunct1])
  from t [THEN conjunct2, THEN conjunct1] have b: "handleDelete (MainDashboard_fetchApiKeys None created_at) True None ''k1''
      ?st sample_world =
     (\<lparr>apiKeys = [sample_key ''k2'' ''2025-10-11''], loading = False\<rparr>,
      \<lparr>table = [sample_key ''k2'' ''2025-10-11''], db_calls = [Delete ''k1'', Select],
       console = []\<rparr>)"
    by (simp add: del) (simp add: sample_world_def)
  have c: "db_select None (\<lambda>r. True) created_at
      \<lparr>table = [sample_key ''k2'' ''2025-10-11''], db_calls = [Delete ''k1'', Select],
       console = []\<rparr> =
     (Inr [sample_key ''k2'' ''2025-10-11''],
      \<lparr>table = [sample_key ''k2'' ''2025-10-11''],
       db_calls = [Delete ''k1'', Select, Select], console = []\<rparr>)"
    by (simp add: db_select_def)
  have d: "ApiKey.id' (sample_key ''k2'' ''2025-10-11'') \<noteq> ''k1'' \<and>
   ApiKey.id' (sample_key ''k1'' ''2025-10-10'') = ''k1'' \<and>
   sample_key ''k1'' ''2025-10-10'' \<in> set (table sample_world)"
    by (simp add: sample_key_def sample_world_def)
  show ?thesis using a b c d by simp
qed

end
